theory Spec2Isabelle
  imports Main "HOL-Library.AList" "HOL-Library.Sublist"
begin

section \<open>JSON values and the Python operations the handlers apply to them\<close>

text \<open>
  \<^verbatim>\<open>request.json\<close> yields an arbitrary decoded JSON value; \<^verbatim>\<open>None\<close> is \<open>JNull\<close>.
  A Python dictionary is an association list read with \<^const>\<open>map_of\<close> and written with
  \<^const>\<open>AList.update\<close> (an existing key keeps its place, a new key goes to the end, as
  in Python). Numbers are integers here: the handlers only test a number for truthiness.
  Characters are code points below 256.
\<close>

datatype json =
    JNull
  | JBool bool
  | JNum int
  | JStr string
  | JArr "json list"
  | JObj "(string \<times> json) list"

type_synonym doc = "(string \<times> json) list"

text \<open>The exceptions the handlers can meet; \<^verbatim>\<open>str(e)\<close> is abstracted to the class name.\<close>

datatype py_error = TypeError | AttributeError | KeyError

fun str_of_error :: "py_error \<Rightarrow> string" where
  "str_of_error TypeError = ''TypeError''"
| "str_of_error AttributeError = ''AttributeError''"
| "str_of_error KeyError = ''KeyError''"

text \<open>\<^verbatim>\<open>not data\<close> is the negation of Python truthiness.\<close>

fun truthy :: "json \<Rightarrow> bool" where
  "truthy JNull = False"
| "truthy (JBool b) = b"
| "truthy (JNum n) = (n \<noteq> 0)"
| "truthy (JStr s) = (s \<noteq> [])"
| "truthy (JArr xs) = (xs \<noteq> [])"
| "truthy (JObj kvs) = (kvs \<noteq> [])"

text \<open>\<^verbatim>\<open>a in b\<close> for strings: \<open>a\<close> occurs in \<open>b\<close> as a contiguous piece.\<close>

fun substring :: "string \<Rightarrow> string \<Rightarrow> bool" where
  "substring p [] = (p = [])"
| "substring p (c # cs) = (prefix p (c # cs) \<or> substring p cs)"

text \<open>
  \<^verbatim>\<open>field in data\<close>: key membership on a dict, element membership on a list, substring
  test on a string, \<^verbatim>\<open>TypeError\<close> on \<^verbatim>\<open>None\<close>, booleans and numbers.
\<close>

fun py_in :: "string \<Rightarrow> json \<Rightarrow> py_error + bool" where
  "py_in k (JObj kvs) = Inr (map_of kvs k \<noteq> None)"
| "py_in k (JArr xs) = Inr (JStr k \<in> set xs)"
| "py_in k (JStr s) = Inr (substring k s)"
| "py_in k JNull = Inl TypeError"
| "py_in k (JBool b) = Inl TypeError"
| "py_in k (JNum n) = Inl TypeError"

text \<open>\<^verbatim>\<open>data[key]\<close> with a string key: only a dict can be indexed by a string.\<close>

fun getitem :: "json \<Rightarrow> string \<Rightarrow> py_error + json" where
  "getitem (JObj kvs) k = (case map_of kvs k of None \<Rightarrow> Inl KeyError | Some v \<Rightarrow> Inr v)"
| "getitem JNull k = Inl TypeError"
| "getitem (JBool b) k = Inl TypeError"
| "getitem (JNum n) k = Inl TypeError"
| "getitem (JStr s) k = Inl TypeError"
| "getitem (JArr xs) k = Inl TypeError"

text \<open>\<^verbatim>\<open>data.get(key, default)\<close>: only a dict has the method.\<close>

fun py_get :: "json \<Rightarrow> string \<Rightarrow> json \<Rightarrow> py_error + json" where
  "py_get (JObj kvs) k d = Inr (case map_of kvs k of None \<Rightarrow> d | Some v \<Rightarrow> v)"
| "py_get JNull k d = Inl AttributeError"
| "py_get (JBool b) k d = Inl AttributeError"
| "py_get (JNum n) k d = Inl AttributeError"
| "py_get (JStr s) k d = Inl AttributeError"
| "py_get (JArr xs) k d = Inl AttributeError"

text \<open>\<^verbatim>\<open>doc.to_dict().get(key, default)\<close> on a stored document, which is always a dict.\<close>

definition doc_get :: "doc \<Rightarrow> string \<Rightarrow> json \<Rightarrow> json" where
  "doc_get d k dflt = (case map_of d k of None \<Rightarrow> dflt | Some v \<Rightarrow> v)"

text \<open>
  \<^verbatim>\<open>data.update({...})\<close>, and the field merge of Firestore's \<^verbatim>\<open>doc_ref.update\<close>: every
  pair of the second dictionary is written into the first, in order.
\<close>

fun dict_update :: "doc \<Rightarrow> doc \<Rightarrow> doc" where
  "dict_update d [] = d"
| "dict_update d ((k, v) # kvs) = dict_update (AList.update k v d) kvs"

text \<open>\<^verbatim>\<open>s.split(sep)\<close> with a one-character separator.\<close>

fun split :: "char \<Rightarrow> string \<Rightarrow> string list" where
  "split sep [] = [[]]"
| "split sep (c # cs) =
     (if c = sep then [] # split sep cs
      else (case split sep cs of
              [] \<Rightarrow> [[c]]
            | w # ws \<Rightarrow> (c # w) # ws))"

text \<open>
  \<^verbatim>\<open>s.strip()\<close> removes leading and trailing white space; below 256 the white-space
  code points of Python are 9 to 13, 28 to 32, 133 and 160.
\<close>

definition py_isspace :: "char \<Rightarrow> bool" where
  "py_isspace c =
     (let n = (of_char c :: nat)
      in (9 \<le> n \<and> n \<le> 13) \<or> (28 \<le> n \<and> n \<le> 32) \<or> n = 133 \<or> n = 160)"

definition strip :: "string \<Rightarrow> string" where
  "strip s = rev (dropWhile py_isspace (rev (dropWhile py_isspace s)))"

text \<open>
  \<^verbatim>\<open>s.lower()\<close>: below 256 the upper-case code points are 65 to 90 and 192 to 222
  without 215, each 32 below its lower-case form.
\<close>

definition lower_char :: "char \<Rightarrow> char" where
  "lower_char c =
     (let n = (of_char c :: nat)
      in if (65 \<le> n \<and> n \<le> 90) \<or> (192 \<le> n \<and> n \<le> 222 \<and> n \<noteq> 215)
         then char_of (n + 32) else c)"

text \<open>\<^verbatim>\<open>value.lower()\<close> on a JSON value: only a string has the method.\<close>

fun py_lower :: "json \<Rightarrow> py_error + string" where
  "py_lower (JStr s) = Inr (map lower_char s)"
| "py_lower JNull = Inl AttributeError"
| "py_lower (JBool b) = Inl AttributeError"
| "py_lower (JNum n) = Inl AttributeError"
| "py_lower (JArr xs) = Inl AttributeError"
| "py_lower (JObj kvs) = Inl AttributeError"

section \<open>Requests, responses, the store and the environment\<close>

text \<open>
  What a handler reads of the Flask request: the method, the \<^verbatim>\<open>Authorization\<close> header
  (\<^verbatim>\<open>request.headers.get\<close>) and the decoded JSON body.
\<close>

record request =
  meth :: string
  authorization :: "string option"
  json_body :: json

text \<open>\<^verbatim>\<open>jsonify(payload), code\<close>.\<close>

record response =
  code :: nat
  payload :: json

text \<open>
  The collection \<^verbatim>\<open>gate_pass_requests\<close>: documents by identifier.
  \<^verbatim>\<open>document(id).set(data)\<close> is \<^const>\<open>AList.update\<close>, \<^verbatim>\<open>document(id).get()\<close> is
  \<^const>\<open>map_of\<close>. Failures of the store itself are outside the model.
\<close>

type_synonym store = "(string \<times> doc) list"

text \<open>
  What a handler draws from outside during one request: the value of \<^verbatim>\<open>uuid.uuid4()\<close>
  and the first, second and third reading of \<^verbatim>\<open>datetime.now().isoformat()\<close>.
\<close>

record env =
  uuid4 :: string
  now0 :: string
  now1 :: string
  now2 :: string

definition SECRET_TOKEN :: string where
  "SECRET_TOKEN = ''default_secret_token''"

definition error_body :: "string \<Rightarrow> json" where
  "error_body msg = JObj [(''error'', JStr msg)]"

definition ok_body :: json where
  "ok_body = JObj [(''status'', JStr ''ok'')]"

section \<open>Access guard\<close>

text \<open>
  \<^verbatim>\<open>check_authentication(f)\<close>, the wrapper around every protected handler. The wrapper
  has no \<^verbatim>\<open>try\<close>: an \<^verbatim>\<open>IndexError\<close> of \<^verbatim>\<open>split(' ')[1]\<close> would reach the 500 error handler.
\<close>

definition check_authentication ::
    "(request \<Rightarrow> 's \<Rightarrow> response \<times> 's) \<Rightarrow> request \<Rightarrow> 's \<Rightarrow> response \<times> 's" where
  "check_authentication f req st =
     (if meth req = ''OPTIONS'' then (\<lparr>code = 200, payload = ok_body\<rparr>, st)
      else
        (case authorization req of
           None \<Rightarrow>
             (\<lparr>code = 401,
               payload = JObj [(''error'', JStr ''Invalid or missing authorization header''),
                               (''received_header'', JNull)]\<rparr>, st)
         | Some auth_header \<Rightarrow>
             if auth_header = [] \<or> \<not> prefix ''Bearer '' auth_header then
               (\<lparr>code = 401,
                 payload = JObj [(''error'', JStr ''Invalid or missing authorization header''),
                                 (''received_header'', JStr auth_header)]\<rparr>, st)
             else
               (case split CHR '' '' auth_header of
                  _ # token # _ \<Rightarrow>
                    if token \<noteq> SECRET_TOKEN then
                      (\<lparr>code = 401,
                        payload = JObj [(''error'', JStr ''Unauthorized''),
                                        (''received_token'', JStr token),
                                        (''expected_token'', JStr SECRET_TOKEN)]\<rparr>, st)
                    else f req st
                | _ \<Rightarrow> (\<lparr>code = 500, payload = error_body ''Internal server error''\<rparr>, st))))"

section \<open>Submission\<close>

definition required_fields :: "string list" where
  "required_fields =
     [''pass_type'', ''prn_number'', ''department'', ''name'',
      ''wing'', ''room_number'', ''reason'', ''phone_no'',
      ''proposed_visit'', ''outing_dates'']"

text \<open>
  The loop over \<^verbatim>\<open>required_fields\<close>: the first field that is not in \<^verbatim>\<open>data\<close>, if any;
  the \<^verbatim>\<open>in\<close> test itself can raise.
\<close>

fun first_missing :: "json \<Rightarrow> string list \<Rightarrow> py_error + string option" where
  "first_missing data [] = Inr None"
| "first_missing data (field # rest) =
     (case py_in field data of
        Inl e \<Rightarrow> Inl e
      | Inr present \<Rightarrow> if \<not> present then Inr (Some field) else first_missing data rest)"

text \<open>The four server-side fields written over the client's dictionary.\<close>

definition server_fields :: "env \<Rightarrow> doc" where
  "server_fields e =
     [(''timestamp'', JStr (now0 e)),
      (''status'', JStr ''Pending''),
      (''created_at'', JStr (now1 e)),
      (''updated_at'', JStr (now2 e))]"

definition invalid_pass_type_msg :: string where
  "invalid_pass_type_msg =
     ''Invalid pass type. Must be '' @ [CHR 0x27] @ ''local'' @ [CHR 0x27] @ '' or ''
       @ [CHR 0x27] @ ''leave'' @ [CHR 0x27]"

text \<open>
  \<^verbatim>\<open>submit_gate_pass\<close>. Every exception inside the \<^verbatim>\<open>try\<close> becomes a 500 answer.
  After \<^verbatim>\<open>data["pass_type"]\<close> has succeeded \<^verbatim>\<open>data\<close> is a dict; the last branch stands
  for the \<^verbatim>\<open>AttributeError\<close> of \<^verbatim>\<open>data.update\<close> on anything else.
\<close>

definition submit_gate_pass :: "env \<Rightarrow> request \<Rightarrow> store \<Rightarrow> response \<times> store" where
  "submit_gate_pass e req st =
     (if meth req = ''OPTIONS'' then (\<lparr>code = 200, payload = ok_body\<rparr>, st)
      else
        (let data = json_body req in
         if \<not> truthy data then (\<lparr>code = 400, payload = error_body ''No data provided''\<rparr>, st)
         else
           (case first_missing data required_fields of
              Inl ex \<Rightarrow> (\<lparr>code = 500, payload = error_body (str_of_error ex)\<rparr>, st)
            | Inr (Some field) \<Rightarrow>
                (\<lparr>code = 400, payload = error_body (''Missing field: '' @ field)\<rparr>, st)
            | Inr None \<Rightarrow>
                (case getitem data ''pass_type'' of
                   Inl ex \<Rightarrow> (\<lparr>code = 500, payload = error_body (str_of_error ex)\<rparr>, st)
                 | Inr pass_type \<Rightarrow>
                     if pass_type \<noteq> JStr ''local'' \<and> pass_type \<noteq> JStr ''leave'' then
                       (\<lparr>code = 400, payload = error_body invalid_pass_type_msg\<rparr>, st)
                     else
                       (case data of
                          JObj kvs \<Rightarrow>
                            (let gate_pass_id = uuid4 e;
                                 data' = dict_update kvs (server_fields e)
                             in (\<lparr>code = 201,
                                   payload = JObj [(''message'', JStr ''Gate Pass Submitted''),
                                                   (''id'', JStr gate_pass_id),
                                                   (''type'', doc_get data' ''pass_type'' JNull)]\<rparr>,
                                 AList.update gate_pass_id data' st))
                        | _ \<Rightarrow>
                            (\<lparr>code = 500,
                              payload = error_body (str_of_error AttributeError)\<rparr>, st))))))"

section \<open>Status update\<close>

text \<open>\<^verbatim>\<open>update_data\<close>: the fields one status update writes.\<close>

definition update_data :: "json \<Rightarrow> json \<Rightarrow> string \<Rightarrow> doc" where
  "update_data status reason now =
     (let u = [(''status'', status), (''updated_at'', JStr now)]
      in if status = JStr ''Rejected'' then AList.update ''rejection_reason'' reason u else u)"

text \<open>\<^verbatim>\<open>f"Gate Pass {status}"\<close>, for the two strings that reach it.\<close>

definition status_text :: "json \<Rightarrow> string" where
  "status_text status = (case status of JStr s \<Rightarrow> s | _ \<Rightarrow> [])"

text \<open>
  \<^verbatim>\<open>update_gate_pass\<close>, the function under the decorator. \<^verbatim>\<open>data.get\<close> raises on a body
  that is not a dict, and the \<^verbatim>\<open>try\<close> turns that into a 500 answer.
\<close>

definition update_gate_pass :: "env \<Rightarrow> string \<Rightarrow> request \<Rightarrow> store \<Rightarrow> response \<times> store" where
  "update_gate_pass e gate_pass_id req st =
     (if meth req = ''OPTIONS'' then (\<lparr>code = 200, payload = ok_body\<rparr>, st)
      else
        (let data = json_body req in
         case py_get data ''status'' JNull of
           Inl ex \<Rightarrow> (\<lparr>code = 500, payload = error_body (str_of_error ex)\<rparr>, st)
         | Inr status \<Rightarrow>
             (case py_get data ''reason'' (JStr []) of
                Inl ex \<Rightarrow> (\<lparr>code = 500, payload = error_body (str_of_error ex)\<rparr>, st)
              | Inr reason \<Rightarrow>
                  if status \<noteq> JStr ''Approved'' \<and> status \<noteq> JStr ''Rejected'' then
                    (\<lparr>code = 400, payload = error_body ''Invalid status''\<rparr>, st)
                  else
                    (case map_of st gate_pass_id of
                       None \<Rightarrow> (\<lparr>code = 404, payload = error_body ''Gate pass not found''\<rparr>, st)
                     | Some d \<Rightarrow>
                         (\<lparr>code = 200,
                           payload = JObj [(''message'', JStr (''Gate Pass '' @ status_text status)),
                                           (''id'', JStr gate_pass_id),
                                           (''updated_at'', JStr (now1 e))]\<rparr>,
                          AList.update gate_pass_id
                            (dict_update d (update_data status reason (now0 e))) st)))))"

text \<open>The route \<^verbatim>\<open>/update_gate_pass/<gate_pass_id>\<close>: the handler behind the guard.\<close>

definition update_gate_pass_route ::
    "env \<Rightarrow> string \<Rightarrow> request \<Rightarrow> store \<Rightarrow> response \<times> store" where
  "update_gate_pass_route e gate_pass_id = check_authentication (update_gate_pass e gate_pass_id)"

section \<open>Lookup by PRN\<close>

text \<open>\<^verbatim>\<open>data = doc.to_dict(); data['id'] = doc.id\<close>.\<close>

definition with_id :: "string \<times> doc \<Rightarrow> json" where
  "with_id p = JObj (AList.update ''id'' (JStr (fst p)) (snd p))"

text \<open>
  The query \<^verbatim>\<open>where(prn_number == value).order_by("timestamp", DESCENDING)\<close>. The
  store's order of values is not part of the repository and is a parameter \<open>le\<close>; a
  document without the ordering field is not returned by an ordered query.
\<close>

definition matching :: "string \<Rightarrow> store \<Rightarrow> store" where
  "matching prn st =
     filter (\<lambda>p. map_of (snd p) ''prn_number'' = Some (JStr prn)
                 \<and> map_of (snd p) ''timestamp'' \<noteq> None) st"

fun insert_desc ::
    "(json \<Rightarrow> json \<Rightarrow> bool) \<Rightarrow> string \<times> doc \<Rightarrow> store \<Rightarrow> store" where
  "insert_desc le x [] = [x]"
| "insert_desc le x (y # ys) =
     (if le (doc_get (snd y) ''timestamp'' JNull) (doc_get (snd x) ''timestamp'' JNull)
      then x # y # ys else y # insert_desc le x ys)"

definition order_by_desc :: "(json \<Rightarrow> json \<Rightarrow> bool) \<Rightarrow> store \<Rightarrow> store" where
  "order_by_desc le xs = foldr (insert_desc le) xs []"

text \<open>\<^verbatim>\<open>get_gate_pass_status(prn_number)\<close>; the route has no guard.\<close>

definition get_gate_pass_status ::
    "(json \<Rightarrow> json \<Rightarrow> bool) \<Rightarrow> string \<Rightarrow> request \<Rightarrow> store \<Rightarrow> response \<times> store" where
  "get_gate_pass_status le prn_number req st =
     (if meth req = ''OPTIONS'' then (\<lparr>code = 200, payload = ok_body\<rparr>, st)
      else if prn_number = [] \<or> strip prn_number = [] then
        (\<lparr>code = 400, payload = error_body ''Invalid PRN number''\<rparr>, st)
      else
        (let gate_pass_list = map with_id (order_by_desc le (matching prn_number st))
         in if gate_pass_list = [] then (\<lparr>code = 200, payload = JArr []\<rparr>, st)
            else (\<lparr>code = 200, payload = JArr gate_pass_list\<rparr>, st)))"

section \<open>Statistics\<close>

text \<open>
  \<^verbatim>\<open>stats\<close> is a dictionary of dictionaries of counters: \<open>s b k\<close> is \<^verbatim>\<open>stats[b][k]\<close>,
  and \<^verbatim>\<open>stats[b][k] += 1\<close> is \<open>incr b k\<close>.
\<close>

type_synonym stats = "string \<Rightarrow> string \<Rightarrow> nat"

definition stats0 :: stats where
  "stats0 = (\<lambda>b k. 0)"

definition incr :: "string \<Rightarrow> string \<Rightarrow> stats \<Rightarrow> stats" where
  "incr b k s = s(b := (s b)(k := s b k + 1))"

text \<open>The body of the loop for one document; \<^verbatim>\<open>.lower()\<close> is called before any test.\<close>

definition count_doc :: "doc \<Rightarrow> stats \<Rightarrow> py_error + stats" where
  "count_doc pass_data s =
     (let pass_type = doc_get pass_data ''pass_type'' (JStr ''unknown'')
      in case py_lower (doc_get pass_data ''status'' (JStr ''unknown'')) of
           Inl ex \<Rightarrow> Inl ex
         | Inr status \<Rightarrow>
             Inr (case pass_type of
                    JStr pt \<Rightarrow>
                      if pt = ''local'' \<or> pt = ''leave'' then
                        (let s1 = incr ''total'' ''all'' (incr pt ''all'' s)
                         in if status = ''pending'' \<or> status = ''approved'' \<or> status = ''rejected''
                            then incr ''total'' status (incr pt status s1)
                            else s1)
                      else s
                  | _ \<Rightarrow> s))"

fun tally :: "doc list \<Rightarrow> stats \<Rightarrow> py_error + stats" where
  "tally [] s = Inr s"
| "tally (d # ds) s = (case count_doc d s of Inl ex \<Rightarrow> Inl ex | Inr s' \<Rightarrow> tally ds s')"

definition bucket_json :: "(string \<Rightarrow> nat) \<Rightarrow> json" where
  "bucket_json b =
     JObj [(''all'', JNum (int (b ''all''))), (''pending'', JNum (int (b ''pending''))),
           (''approved'', JNum (int (b ''approved''))), (''rejected'', JNum (int (b ''rejected'')))]"

definition stats_json :: "stats \<Rightarrow> json" where
  "stats_json s =
     JObj [(''total'', bucket_json (s ''total'')), (''local'', bucket_json (s ''local'')),
           (''leave'', bucket_json (s ''leave''))]"

text \<open>\<^verbatim>\<open>get_statistics\<close>, the function under the decorator, and its route.\<close>

definition get_statistics :: "env \<Rightarrow> request \<Rightarrow> store \<Rightarrow> response \<times> store" where
  "get_statistics e req st =
     (if meth req = ''OPTIONS'' then (\<lparr>code = 200, payload = ok_body\<rparr>, st)
      else
        (case tally (map snd st) stats0 of
           Inl ex \<Rightarrow> (\<lparr>code = 500, payload = error_body (str_of_error ex)\<rparr>, st)
         | Inr s \<Rightarrow>
             (\<lparr>code = 200,
               payload = JObj [(''stats'', stats_json s),
                               (''last_updated'', JStr (now0 e))]\<rparr>, st)))"

definition get_statistics_route :: "env \<Rightarrow> request \<Rightarrow> store \<Rightarrow> response \<times> store" where
  "get_statistics_route e = check_authentication (get_statistics e)"

section \<open>Sequences of operations\<close>

text \<open>
  The two operations that write to the store, as requests to their routes:
  \<^verbatim>\<open>/submit_gate_pass\<close> is unguarded, \<^verbatim>\<open>/update_gate_pass/<id>\<close> is behind the guard.
\<close>

datatype api_call =
    Submit env request
  | Update env string request

fun step :: "store \<Rightarrow> api_call \<Rightarrow> store" where
  "step st (Submit e req) = snd (submit_gate_pass e req st)"
| "step st (Update e gate_pass_id req) = snd (update_gate_pass_route e gate_pass_id req st)"

definition run :: "api_call list \<Rightarrow> store" where
  "run calls = foldl step [] calls"

section \<open>Notions used in the statements\<close>

text \<open>
  The token the guard compares: what stands between the first space of the header and
  the next space, or the end of the header.
\<close>

definition bearer_token :: "string \<Rightarrow> string" where
  "bearer_token h = takeWhile (\<lambda>c. c \<noteq> CHR '' '') (drop 7 h)"

definition presents_secret :: "request \<Rightarrow> bool" where
  "presents_secret req =
     (case authorization req of
        None \<Rightarrow> False
      | Some h \<Rightarrow> prefix ''Bearer '' h \<and> bearer_token h = SECRET_TOKEN)"

text \<open>Whether a decoded body is a JSON object, a Python \<^verbatim>\<open>dict\<close>.\<close>

definition is_dict :: "json \<Rightarrow> bool" where
  "is_dict data = (case data of JObj kvs \<Rightarrow> True | _ \<Rightarrow> False)"

text \<open>
  A valid submission: an object that has all ten required fields and whose
  \<^verbatim>\<open>pass_type\<close> is the string \<^verbatim>\<open>local\<close> or the string \<^verbatim>\<open>leave\<close>.
\<close>

definition valid_body :: "json \<Rightarrow> bool" where
  "valid_body data =
     (case data of
        JObj kvs \<Rightarrow>
          list_all (\<lambda>field. map_of kvs field \<noteq> None) required_fields \<and>
          (map_of kvs ''pass_type'' = Some (JStr ''local'') \<or>
           map_of kvs ''pass_type'' = Some (JStr ''leave''))
      | _ \<Rightarrow> False)"

text \<open>
  The relations between the counters: \<open>total.all\<close> is the sum of the two type buckets,
  and in each bucket no status counter exceeds \<open>all\<close>.
\<close>

definition bucket_ok :: "stats \<Rightarrow> string \<Rightarrow> bool" where
  "bucket_ok s b =
     (s b ''pending'' \<le> s b ''all'' \<and> s b ''approved'' \<le> s b ''all'' \<and>
      s b ''rejected'' \<le> s b ''all'')"

definition consistent :: "stats \<Rightarrow> bool" where
  "consistent s =
     (s ''total'' ''all'' = s ''local'' ''all'' + s ''leave'' ''all'' \<and>
      bucket_ok s ''total'' \<and> bucket_ok s ''local'' \<and> bucket_ok s ''leave'')"

text \<open>The \<^verbatim>\<open>status\<close> of a document, when it has one, is a string.\<close>

definition status_is_text :: "doc \<Rightarrow> bool" where
  "status_is_text d =
     (case map_of d ''status'' of None \<Rightarrow> True | Some (JStr s) \<Rightarrow> True | Some _ \<Rightarrow> False)"

text \<open>
  A request that does not itself bring a \<^verbatim>\<open>rejection_reason\<close>: any status update, and
  any submission whose body, when it is an object, has no such field.
\<close>

fun clean_call :: "api_call \<Rightarrow> bool" where
  "clean_call (Submit e req) =
     (case json_body req of JObj kvs \<Rightarrow> map_of kvs ''rejection_reason'' = None | _ \<Rightarrow> True)"
| "clean_call (Update e gate_pass_id req) = True"

text \<open>
  A record is settled when its status is \<^verbatim>\<open>Approved\<close> or \<^verbatim>\<open>Rejected\<close>, or is \<^verbatim>\<open>Pending\<close>
  with no \<^verbatim>\<open>rejection_reason\<close>.
\<close>

definition settled :: "doc \<Rightarrow> bool" where
  "settled d =
     (map_of d ''status'' = Some (JStr ''Pending'') \<and> map_of d ''rejection_reason'' = None \<or>
      map_of d ''status'' = Some (JStr ''Approved'') \<or>
      map_of d ''status'' = Some (JStr ''Rejected''))"

section \<open>Properties of the access guard\<close>

lemma split_nonempty: "split sep s \<noteq> []"
  by (induction s) (auto split: list.splits)

lemma split_unfold:
  "split sep s = takeWhile (\<lambda>c. c \<noteq> sep) s #
     (case dropWhile (\<lambda>c. c \<noteq> sep) s of [] \<Rightarrow> [] | _ # r \<Rightarrow> split sep r)"
  by (induction s) (auto split: list.splits simp: split_nonempty)

lemma split_bearer:
  assumes "prefix ''Bearer '' h"
  shows "\<exists>rest. split CHR '' '' h = ''Bearer'' # bearer_token h # rest"
proof -
  from assms obtain r where h: "h = ''Bearer '' @ r" by (auto simp: prefix_def)
  have "split CHR '' '' r = takeWhile (\<lambda>c. c \<noteq> CHR '' '') r #
     (case dropWhile (\<lambda>c. c \<noteq> CHR '' '') r of [] \<Rightarrow> [] | _ # r \<Rightarrow> split CHR '' '' r)"
    by (rule split_unfold)
  then show ?thesis unfolding h bearer_token_def by (simp split: list.splits)
qed

lemma guard_options:
  "meth req = ''OPTIONS'' \<Longrightarrow>
   check_authentication f req st = (\<lparr>code = 200, payload = ok_body\<rparr>, st)"
  by (simp add: check_authentication_def)

lemma guard_bearer:
  assumes "meth req \<noteq> ''OPTIONS''" and "authorization req = Some h"
    and "prefix ''Bearer '' h"
  shows "check_authentication f req st =
     (if bearer_token h \<noteq> SECRET_TOKEN then
        (\<lparr>code = 401,
          payload = JObj [(''error'', JStr ''Unauthorized''),
                       (''received_token'', JStr (bearer_token h)),
                       (''expected_token'', JStr SECRET_TOKEN)]\<rparr>, st)
      else f req st)"
proof -
  from split_bearer [OF assms(3)] obtain rest where
    sp: "split CHR '' '' h = ''Bearer'' # bearer_token h # rest" ..
  from assms(3) have ne: "h \<noteq> []" by auto
  show ?thesis
    unfolding check_authentication_def
    by (simp only: assms sp ne if_False if_True option.case list.case simp_thms)
qed

lemma guard_no_bearer:
  assumes "meth req \<noteq> ''OPTIONS''"
    and "authorization req = None \<or> (\<exists>h. authorization req = Some h \<and> \<not> prefix ''Bearer '' h)"
  shows "code (fst (check_authentication f req st)) = 401 \<and>
         snd (check_authentication f req st) = st"
  using assms by (auto simp: check_authentication_def)

lemma guard_pass:
  assumes "meth req \<noteq> ''OPTIONS''" and "presents_secret req"
  shows "check_authentication f req st = f req st"
proof -
  from assms(2) obtain h where h: "authorization req = Some h" "prefix ''Bearer '' h"
      "bearer_token h = SECRET_TOKEN"
    by (auto simp: presents_secret_def split: option.splits)
  show ?thesis by (simp add: guard_bearer [OF assms(1) h(1) h(2)] h(3))
qed

lemma guard_reject:
  assumes "meth req \<noteq> ''OPTIONS''" and "\<not> presents_secret req"
  shows "code (fst (check_authentication f req st)) = 401 \<and>
         snd (check_authentication f req st) = st"
proof (cases "authorization req")
  case None
  with assms(1) show ?thesis by (intro guard_no_bearer) auto
next
  case (Some h)
  show ?thesis
  proof (cases "prefix ''Bearer '' h")
    case False
    with assms(1) Some show ?thesis by (intro guard_no_bearer) auto
  next
    case True
    with assms(2) Some have "bearer_token h \<noteq> SECRET_TOKEN"
      by (simp add: presents_secret_def)
    then show ?thesis by (simp add: guard_bearer [OF assms(1) Some True])
  qed
qed

text \<open>
  Claim C5, as the code has it. For every handler behind the guard, every request and
  every store: an \<^verbatim>\<open>OPTIONS\<close> request is answered 200 without the handler being run; any
  other request reaches the handler exactly when its \<^verbatim>\<open>Authorization\<close> header starts with
  \<^verbatim>\<open>Bearer\<close> and a space and the word up to the next space (or the end) is the shared
  secret; every remaining request is answered 401 and the store is left as it was.
  What follows a second space in the header is not looked at.
\<close>

theorem C5_guard:
  "(meth req = ''OPTIONS'' \<longrightarrow>
      check_authentication f req st = (\<lparr>code = 200, payload = ok_body\<rparr>, st)) \<and>
   (meth req \<noteq> ''OPTIONS'' \<and> presents_secret req \<longrightarrow>
      check_authentication f req st = f req st) \<and>
   (meth req \<noteq> ''OPTIONS'' \<and> \<not> presents_secret req \<longrightarrow>
      code (fst (check_authentication f req st)) = 401 \<and>
      snd (check_authentication f req st) = st)"
  using guard_options [of req f st] guard_pass [of req f st] guard_reject [of req f st]
  by blast

theorem C5_guard_witness:
  "check_authentication (get_statistics \<lparr>uuid4 = ''u'', now0 = ''t0'', now1 = ''t1'', now2 = ''t2''\<rparr>)
     \<lparr>meth = ''OPTIONS'', authorization = None, json_body = JNull\<rparr> []
     = (\<lparr>code = 200, payload = ok_body\<rparr>, []) \<and>
   check_authentication (get_statistics \<lparr>uuid4 = ''u'', now0 = ''t0'', now1 = ''t1'', now2 = ''t2''\<rparr>)
     \<lparr>meth = ''GET'', authorization = Some ''Bearer default_secret_token'', json_body = JNull\<rparr> []
     = get_statistics \<lparr>uuid4 = ''u'', now0 = ''t0'', now1 = ''t1'', now2 = ''t2''\<rparr>
         \<lparr>meth = ''GET'', authorization = Some ''Bearer default_secret_token'', json_body = JNull\<rparr> [] \<and>
   code (fst (check_authentication (get_statistics \<lparr>uuid4 = ''u'', now0 = ''t0'', now1 = ''t1'', now2 = ''t2''\<rparr>)
     \<lparr>meth = ''GET'', authorization = Some ''Bearer wrong'', json_body = JNull\<rparr> [])) = 401"
proof -
  let ?e = "\<lparr>uuid4 = ''u'', now0 = ''t0'', now1 = ''t1'', now2 = ''t2''\<rparr>"
  let ?r1 = "\<lparr>meth = ''OPTIONS'', authorization = None, json_body = JNull\<rparr>"
  let ?r2 = "\<lparr>meth = ''GET'', authorization = Some ''Bearer default_secret_token'', json_body = JNull\<rparr>"
  let ?r3 = "\<lparr>meth = ''GET'', authorization = Some ''Bearer wrong'', json_body = JNull\<rparr>"
  have p2: "presents_secret ?r2"
    by (simp add: presents_secret_def bearer_token_def SECRET_TOKEN_def)
  have p3: "\<not> presents_secret ?r3"
    by (simp add: presents_secret_def bearer_token_def SECRET_TOKEN_def)
  show ?thesis
    using C5_guard [of ?r1 "get_statistics ?e" "[]"] C5_guard [of ?r2 "get_statistics ?e" "[]"]
      C5_guard [of ?r3 "get_statistics ?e" "[]"] p2 p3
    by simp
qed

text \<open>
  Claim C5 as it is stated fails: a header that is not \<^verbatim>\<open>Bearer\<close>, a space and the
  secret, but carries more text after a second space, is let through, and the status
  update behind the guard changes the stored record.
\<close>

theorem C5_counterexample:
  "authorization \<lparr>meth = ''POST'', authorization = Some ''Bearer default_secret_token x'',
        json_body = JObj [(''status'', JStr ''Approved'')]\<rparr>
     \<noteq> Some (''Bearer '' @ SECRET_TOKEN) \<and>
   update_gate_pass_route
       \<lparr>uuid4 = ''u'', now0 = ''t0'', now1 = ''t1'', now2 = ''t2''\<rparr> ''g1''
       \<lparr>meth = ''POST'', authorization = Some ''Bearer default_secret_token x'',
        json_body = JObj [(''status'', JStr ''Approved'')]\<rparr>
       [(''g1'', [(''status'', JStr ''Pending'')])] =
     (\<lparr>code = 200,
       payload = JObj [(''message'', JStr ''Gate Pass Approved''), (''id'', JStr ''g1''),
                       (''updated_at'', JStr ''t1'')]\<rparr>,
      [(''g1'', [(''status'', JStr ''Approved''), (''updated_at'', JStr ''t0'')])])"
  by (simp add: update_gate_pass_route_def check_authentication_def update_gate_pass_def
      SECRET_TOKEN_def update_data_def status_text_def)

text \<open>
  Claim C10. For every handler behind the guard and every request other than
  \<^verbatim>\<open>OPTIONS\<close> whose \<^verbatim>\<open>Authorization\<close> header starts with \<^verbatim>\<open>Bearer\<close> and a space and whose
  token differs from the shared secret: the answer is 401, the store is untouched, and
  the body carries the received token together with the expected secret itself in the
  field \<^verbatim>\<open>expected_token\<close>.
\<close>

theorem C10_discloses_secret:
  assumes "meth req \<noteq> ''OPTIONS''" and "authorization req = Some h"
    and "prefix ''Bearer '' h" and "bearer_token h \<noteq> SECRET_TOKEN"
  shows "check_authentication f req st =
     (\<lparr>code = 401,
       payload = JObj [(''error'', JStr ''Unauthorized''),
                       (''received_token'', JStr (bearer_token h)),
                       (''expected_token'', JStr ''default_secret_token'')]\<rparr>, st)"
  using assms(4) by (simp add: guard_bearer [OF assms(1-3)] SECRET_TOKEN_def)

theorem C10_discloses_secret_witness:
  "check_authentication (get_statistics \<lparr>uuid4 = ''u'', now0 = ''t0'', now1 = ''t1'', now2 = ''t2''\<rparr>)
     \<lparr>meth = ''GET'', authorization = Some ''Bearer wrong'', json_body = JNull\<rparr> [] =
     (\<lparr>code = 401,
       payload = JObj [(''error'', JStr ''Unauthorized''),
                       (''received_token'', JStr ''wrong''),
                       (''expected_token'', JStr ''default_secret_token'')]\<rparr>, [])"
  using C10_discloses_secret [of "\<lparr>meth = ''GET'', authorization = Some ''Bearer wrong'', json_body = JNull\<rparr>"
      "''Bearer wrong''" "get_statistics \<lparr>uuid4 = ''u'', now0 = ''t0'', now1 = ''t1'', now2 = ''t2''\<rparr>" "[]"]
  by (simp add: bearer_token_def SECRET_TOKEN_def)

section \<open>Properties of submission\<close>

lemma first_missing_dict:
  "first_missing (JObj kvs) fs = Inr (find (\<lambda>field. map_of kvs field = None) fs)"
  by (induction fs) auto

lemma find_None_list_all: "find P xs = None \<longleftrightarrow> list_all (\<lambda>x. \<not> P x) xs"
  by (induction xs) auto

lemma map_of_dict_update_other:
  "k \<notin> fst ` set u \<Longrightarrow> map_of (dict_update d u) k = map_of d k"
  by (induction d u rule: dict_update.induct) (auto simp: update_conv')

lemma submit_dict:
  assumes "meth req \<noteq> ''OPTIONS''" and "json_body req = JObj kvs"
  shows "submit_gate_pass e req st =
     (if kvs = [] then (\<lparr>code = 400, payload = error_body ''No data provided''\<rparr>, st)
      else case find (\<lambda>field. map_of kvs field = None) required_fields of
        Some field \<Rightarrow> (\<lparr>code = 400, payload = error_body (''Missing field: '' @ field)\<rparr>, st)
      | None \<Rightarrow>
          (case map_of kvs ''pass_type'' of
             None \<Rightarrow> (\<lparr>code = 500, payload = error_body (str_of_error KeyError)\<rparr>, st)
           | Some pass_type \<Rightarrow>
               if pass_type \<noteq> JStr ''local'' \<and> pass_type \<noteq> JStr ''leave'' then
                 (\<lparr>code = 400, payload = error_body invalid_pass_type_msg\<rparr>, st)
               else
                 (\<lparr>code = 201,
                   payload = JObj [(''message'', JStr ''Gate Pass Submitted''),
                                   (''id'', JStr (uuid4 e)),
                                   (''type'', pass_type)]\<rparr>,
                  AList.update (uuid4 e) (dict_update kvs (server_fields e)) st)))"
proof -
  have "doc_get (dict_update kvs (server_fields e)) ''pass_type'' JNull = v"
    if "map_of kvs ''pass_type'' = Some v" for v
    using that by (simp add: doc_get_def server_fields_def update_conv')
  then show ?thesis
    using assms
    by (simp add: submit_gate_pass_def first_missing_dict Let_def
        split: option.splits)
qed


lemma getitem_non_dict: "\<not> is_dict data \<Longrightarrow> getitem data k = Inl TypeError"
  by (cases data) (auto simp: is_dict_def)

lemma submit_non_dict:
  assumes "meth req \<noteq> ''OPTIONS''" and "\<not> is_dict (json_body req)"
  shows "snd (submit_gate_pass e req st) = st \<and>
         (code (fst (submit_gate_pass e req st)) = 400 \<or>
          code (fst (submit_gate_pass e req st)) = 500)"
  using assms
  by (simp add: submit_gate_pass_def Let_def getitem_non_dict split: sum.splits option.splits)


lemma valid_body_dict:
  "valid_body (JObj kvs) \<longleftrightarrow>
     find (\<lambda>field. map_of kvs field = None) required_fields = None \<and>
     (map_of kvs ''pass_type'' = Some (JStr ''local'') \<or>
      map_of kvs ''pass_type'' = Some (JStr ''leave''))"
  by (simp add: valid_body_def find_None_list_all)

lemma valid_body_is_dict: "valid_body data \<Longrightarrow> is_dict data"
  by (cases data) (auto simp: valid_body_def is_dict_def)

lemma pass_type_required:
  "find (\<lambda>field. map_of kvs field = None) required_fields = None \<Longrightarrow>
   map_of kvs ''pass_type'' \<noteq> None"
  by (simp add: required_fields_def split: if_splits)

lemma submit_valid:
  assumes "meth req \<noteq> ''OPTIONS''" and "json_body req = JObj kvs"
    and "valid_body (JObj kvs)"
  shows "submit_gate_pass e req st =
     (\<lparr>code = 201,
       payload = JObj [(''message'', JStr ''Gate Pass Submitted''),
                       (''id'', JStr (uuid4 e)),
                       (''type'', doc_get kvs ''pass_type'' JNull)]\<rparr>,
      AList.update (uuid4 e) (dict_update kvs (server_fields e)) st)"
proof -
  from assms(3) have f: "find (\<lambda>field. map_of kvs field = None) required_fields = None"
    and pt: "map_of kvs ''pass_type'' = Some (JStr ''local'') \<or>
             map_of kvs ''pass_type'' = Some (JStr ''leave'')"
    by (simp_all add: valid_body_dict)
  from pt have "kvs \<noteq> []" by auto
  with f pt show ?thesis
    by (auto simp: submit_dict [OF assms(1,2)] doc_get_def)
qed

lemma submit_invalid_dict:
  assumes "meth req \<noteq> ''OPTIONS''" and "json_body req = JObj kvs"
    and "\<not> valid_body (JObj kvs)"
  shows "code (fst (submit_gate_pass e req st)) = 400 \<and> snd (submit_gate_pass e req st) = st"
proof (cases "find (\<lambda>field. map_of kvs field = None) required_fields")
  case (Some field)
  then show ?thesis by (simp add: submit_dict [OF assms(1,2)])
next
  case None
  with pass_type_required obtain v where v: "map_of kvs ''pass_type'' = Some v" by blast
  with None assms(3) have "v \<noteq> JStr ''local'' \<and> v \<noteq> JStr ''leave''"
    by (auto simp: valid_body_dict)
  with None v show ?thesis by (simp add: submit_dict [OF assms(1,2)])
qed

lemma stored_fields:
  "map_of (dict_update kvs (server_fields e)) =
     (map_of kvs)(''timestamp'' \<mapsto> JStr (now0 e), ''status'' \<mapsto> JStr ''Pending'',
                  ''created_at'' \<mapsto> JStr (now1 e), ''updated_at'' \<mapsto> JStr (now2 e))"
  by (simp add: server_fields_def update_conv')






text \<open>
  Claim C8. For every valid submission body: the stored record has status \<^verbatim>\<open>Pending\<close>
  and the server's \<^verbatim>\<open>timestamp\<close>, \<^verbatim>\<open>created_at\<close> and \<^verbatim>\<open>updated_at\<close>, whatever the body
  itself says for these four fields, and every other field of the body, the ten required
  ones and any further one, is stored as the client sent it.
\<close>

theorem C8_server_fields:
  assumes "meth req \<noteq> ''OPTIONS''" and "json_body req = JObj kvs"
    and "valid_body (JObj kvs)"
  shows "\<exists>d. map_of (snd (submit_gate_pass e req st)) (uuid4 e) = Some d \<and>
           map_of d ''status'' = Some (JStr ''Pending'') \<and>
           map_of d ''timestamp'' = Some (JStr (now0 e)) \<and>
           map_of d ''created_at'' = Some (JStr (now1 e)) \<and>
           map_of d ''updated_at'' = Some (JStr (now2 e)) \<and>
           (\<forall>k. k \<notin> {''timestamp'', ''status'', ''created_at'', ''updated_at''} \<longrightarrow>
                map_of d k = map_of kvs k)"
  by (simp add: submit_valid [OF assms] update_conv' stored_fields)


theorem C8_server_fields_witness:
  "\<exists>d. map_of (snd (submit_gate_pass \<lparr>uuid4 = ''u'', now0 = ''t0'', now1 = ''t1'', now2 = ''t2''\<rparr>
     \<lparr>meth = ''POST'', authorization = None,
      json_body = JObj [(''pass_type'', JStr ''local''), (''prn_number'', JStr ''123''),
        (''department'', JStr ''CS''), (''name'', JStr ''A''), (''wing'', JStr ''W1''),
        (''room_number'', JStr ''101''), (''reason'', JStr ''home''), (''phone_no'', JStr ''999''),
        (''proposed_visit'', JStr ''2024-01-01''), (''outing_dates'', JStr ''2024-01-01''),
        (''status'', JStr ''Approved''), (''created_at'', JStr ''1999''),
        (''hostel'', JStr ''H2'')]\<rparr> [])) ''u'' = Some d \<and>
     map_of d ''status'' = Some (JStr ''Pending'') \<and>
     map_of d ''created_at'' = Some (JStr ''t1'') \<and>
     map_of d ''hostel'' = Some (JStr ''H2'')"
proof -
  let ?kvs = "[(''pass_type'', JStr ''local''), (''prn_number'', JStr ''123''),
        (''department'', JStr ''CS''), (''name'', JStr ''A''), (''wing'', JStr ''W1''),
        (''room_number'', JStr ''101''), (''reason'', JStr ''home''), (''phone_no'', JStr ''999''),
        (''proposed_visit'', JStr ''2024-01-01''), (''outing_dates'', JStr ''2024-01-01''),
        (''status'', JStr ''Approved''), (''created_at'', JStr ''1999''),
        (''hostel'', JStr ''H2'')]"
  let ?req = "\<lparr>meth = ''POST'', authorization = None, json_body = JObj ?kvs\<rparr>"
  let ?e = "\<lparr>uuid4 = ''u'', now0 = ''t0'', now1 = ''t1'', now2 = ''t2''\<rparr>"
  have m: "meth ?req \<noteq> ''OPTIONS''" by simp
  have b: "json_body ?req = JObj ?kvs" by simp
  have v: "valid_body (JObj ?kvs)" by (simp add: valid_body_def required_fields_def)
  from C8_server_fields [OF m b v, of ?e "[]"] obtain d where
    d: "map_of (snd (submit_gate_pass ?e ?req [])) (uuid4 ?e) = Some d"
       "map_of d ''status'' = Some (JStr ''Pending'')"
       "map_of d ''created_at'' = Some (JStr (now1 ?e))"
       "\<forall>k. k \<notin> {''timestamp'', ''status'', ''created_at'', ''updated_at''} \<longrightarrow>
                map_of d k = map_of ?kvs k"
    by blast
  from d(4) have "map_of d ''hostel'' = map_of ?kvs ''hostel''" by simp
  then have "map_of d ''hostel'' = Some (JStr ''H2'')" by simp
  with d(1-3) show ?thesis by auto
qed

section \<open>Properties of the status update\<close>

lemma update_dict:
  assumes "meth req \<noteq> ''OPTIONS''" and "json_body req = JObj kvs"
  shows "update_gate_pass e gid req st =
     (if doc_get kvs ''status'' JNull \<noteq> JStr ''Approved'' \<and>
         doc_get kvs ''status'' JNull \<noteq> JStr ''Rejected''
      then (\<lparr>code = 400, payload = error_body ''Invalid status''\<rparr>, st)
      else case map_of st gid of
        None \<Rightarrow> (\<lparr>code = 404, payload = error_body ''Gate pass not found''\<rparr>, st)
      | Some d \<Rightarrow>
          (\<lparr>code = 200,
            payload = JObj [(''message'',
                               JStr (''Gate Pass '' @ status_text (doc_get kvs ''status'' JNull))),
                            (''id'', JStr gid), (''updated_at'', JStr (now1 e))]\<rparr>,
           AList.update gid
             (dict_update d (update_data (doc_get kvs ''status'' JNull)
                               (doc_get kvs ''reason'' (JStr [])) (now0 e))) st))"
  using assms unfolding update_gate_pass_def doc_get_def Let_def by simp

lemma update_non_dict:
  assumes "meth req \<noteq> ''OPTIONS''" and "\<not> is_dict (json_body req)"
  shows "update_gate_pass e gid req st =
     (\<lparr>code = 500, payload = error_body ''AttributeError''\<rparr>, st)"
  using assms by (cases "json_body req") (simp_all add: update_gate_pass_def is_dict_def)

lemma doc_get_status:
  "doc_get kvs ''status'' JNull = JStr s \<longleftrightarrow> map_of kvs ''status'' = Some (JStr s)"
  by (simp add: doc_get_def split: option.splits)

lemma written_approved:
  "map_of (dict_update d (update_data (JStr ''Approved'') reason now)) =
     (map_of d)(''status'' \<mapsto> JStr ''Approved'', ''updated_at'' \<mapsto> JStr now)"
  by (simp add: update_data_def update_conv')

lemma written_rejected:
  "map_of (dict_update d (update_data (JStr ''Rejected'') reason now)) =
     (map_of d)(''status'' \<mapsto> JStr ''Rejected'', ''updated_at'' \<mapsto> JStr now,
                ''rejection_reason'' \<mapsto> reason)"
  by (simp add: update_data_def update_conv')




text \<open>
  Claim C3. For every existing record and every request to \<^verbatim>\<open>update_gate_pass\<close> past the
  guard, other than \<^verbatim>\<open>OPTIONS\<close>, whose body is an object: with status \<^verbatim>\<open>Rejected\<close> the call
  succeeds and the record then has a \<^verbatim>\<open>rejection_reason\<close>, the \<^verbatim>\<open>reason\<close> of the body, or
  the empty string when the body has none; with status \<^verbatim>\<open>Approved\<close> the call succeeds,
  the fields written contain no \<^verbatim>\<open>rejection_reason\<close> and the record's
  \<^verbatim>\<open>rejection_reason\<close> is what it was before (absent if it was absent); in both cases
  \<^verbatim>\<open>updated_at\<close> is set to the current time.
\<close>

theorem C3_rejection_reason:
  assumes "meth req \<noteq> ''OPTIONS''" and "json_body req = JObj kvs"
    and "map_of st gid = Some d"
  shows
    "(map_of kvs ''status'' = Some (JStr ''Rejected'') \<longrightarrow>
        (\<exists>d'. code (fst (update_gate_pass e gid req st)) = 200 \<and>
           map_of (snd (update_gate_pass e gid req st)) gid = Some d' \<and>
           map_of d' ''status'' = Some (JStr ''Rejected'') \<and>
           map_of d' ''rejection_reason'' =
             Some (case map_of kvs ''reason'' of None \<Rightarrow> JStr [] | Some r \<Rightarrow> r) \<and>
           map_of d' ''updated_at'' = Some (JStr (now0 e)))) \<and>
     (map_of kvs ''status'' = Some (JStr ''Approved'') \<longrightarrow>
        (\<exists>d'. code (fst (update_gate_pass e gid req st)) = 200 \<and>
           map_of (snd (update_gate_pass e gid req st)) gid = Some d' \<and>
           map_of d' ''status'' = Some (JStr ''Approved'') \<and>
           map_of d' ''rejection_reason'' = map_of d ''rejection_reason'' \<and>
           map_of (update_data (JStr ''Approved'') (doc_get kvs ''reason'' (JStr [])) (now0 e))
             ''rejection_reason'' = None \<and>
           map_of d' ''updated_at'' = Some (JStr (now0 e))))"
proof (intro conjI impI)
  assume "map_of kvs ''status'' = Some (JStr ''Rejected'')"
  then have s: "doc_get kvs ''status'' JNull = JStr ''Rejected''" by (simp add: doc_get_status)
  have r: "doc_get kvs ''reason'' (JStr []) =
           (case map_of kvs ''reason'' of None \<Rightarrow> JStr [] | Some r \<Rightarrow> r)"
    by (simp add: doc_get_def)
  show "\<exists>d'. code (fst (update_gate_pass e gid req st)) = 200 \<and>
           map_of (snd (update_gate_pass e gid req st)) gid = Some d' \<and>
           map_of d' ''status'' = Some (JStr ''Rejected'') \<and>
           map_of d' ''rejection_reason'' =
             Some (case map_of kvs ''reason'' of None \<Rightarrow> JStr [] | Some r \<Rightarrow> r) \<and>
           map_of d' ''updated_at'' = Some (JStr (now0 e))"
    by (simp add: update_dict [OF assms(1,2)] s assms(3) update_conv' written_rejected r)
next
  assume "map_of kvs ''status'' = Some (JStr ''Approved'')"
  then have s: "doc_get kvs ''status'' JNull = JStr ''Approved''" by (simp add: doc_get_status)
  show "\<exists>d'. code (fst (update_gate_pass e gid req st)) = 200 \<and>
           map_of (snd (update_gate_pass e gid req st)) gid = Some d' \<and>
           map_of d' ''status'' = Some (JStr ''Approved'') \<and>
           map_of d' ''rejection_reason'' = map_of d ''rejection_reason'' \<and>
           map_of (update_data (JStr ''Approved'') (doc_get kvs ''reason'' (JStr [])) (now0 e))
             ''rejection_reason'' = None \<and>
           map_of d' ''updated_at'' = Some (JStr (now0 e))"
    by (simp add: update_dict [OF assms(1,2)] s assms(3) update_conv' written_approved
        update_data_def)
qed

theorem C3_rejection_reason_witness:
  "(\<exists>d'. code (fst (update_gate_pass \<lparr>uuid4 = ''u'', now0 = ''t0'', now1 = ''t1'', now2 = ''t2''\<rparr>
        ''g1'' \<lparr>meth = ''POST'', authorization = Some ''Bearer default_secret_token'',
                json_body = JObj [(''status'', JStr ''Rejected'')]\<rparr>
        [(''g1'', [(''status'', JStr ''Pending'')])])) = 200 \<and>
      map_of (snd (update_gate_pass \<lparr>uuid4 = ''u'', now0 = ''t0'', now1 = ''t1'', now2 = ''t2''\<rparr>
        ''g1'' \<lparr>meth = ''POST'', authorization = Some ''Bearer default_secret_token'',
                json_body = JObj [(''status'', JStr ''Rejected'')]\<rparr>
        [(''g1'', [(''status'', JStr ''Pending'')])])) ''g1'' = Some d' \<and>
      map_of d' ''rejection_reason'' = Some (JStr []) \<and>
      map_of d' ''updated_at'' = Some (JStr ''t0'')) \<and>
   (\<exists>d'. code (fst (update_gate_pass \<lparr>uuid4 = ''u'', now0 = ''t0'', now1 = ''t1'', now2 = ''t2''\<rparr>
        ''g1'' \<lparr>meth = ''POST'', authorization = Some ''Bearer default_secret_token'',
                json_body = JObj [(''status'', JStr ''Approved''), (''reason'', JStr ''ok'')]\<rparr>
        [(''g1'', [(''status'', JStr ''Pending'')])])) = 200 \<and>
      map_of (snd (update_gate_pass \<lparr>uuid4 = ''u'', now0 = ''t0'', now1 = ''t1'', now2 = ''t2''\<rparr>
        ''g1'' \<lparr>meth = ''POST'', authorization = Some ''Bearer default_secret_token'',
                json_body = JObj [(''status'', JStr ''Approved''), (''reason'', JStr ''ok'')]\<rparr>
        [(''g1'', [(''status'', JStr ''Pending'')])])) ''g1'' = Some d' \<and>
      map_of d' ''rejection_reason'' = None \<and>
      map_of d' ''updated_at'' = Some (JStr ''t0''))"
  using
    C3_rejection_reason [of "\<lparr>meth = ''POST'', authorization = Some ''Bearer default_secret_token'',
                json_body = JObj [(''status'', JStr ''Rejected'')]\<rparr>"
      "[(''status'', JStr ''Rejected'')]" "[(''g1'', [(''status'', JStr ''Pending'')])]" "''g1''"
      "[(''status'', JStr ''Pending'')]"
      "\<lparr>uuid4 = ''u'', now0 = ''t0'', now1 = ''t1'', now2 = ''t2''\<rparr>"]
    C3_rejection_reason [of "\<lparr>meth = ''POST'', authorization = Some ''Bearer default_secret_token'',
                json_body = JObj [(''status'', JStr ''Approved''), (''reason'', JStr ''ok'')]\<rparr>"
      "[(''status'', JStr ''Approved''), (''reason'', JStr ''ok'')]"
      "[(''g1'', [(''status'', JStr ''Pending'')])]" "''g1''"
      "[(''status'', JStr ''Pending'')]"
      "\<lparr>uuid4 = ''u'', now0 = ''t0'', now1 = ''t1'', now2 = ''t2''\<rparr>"]
  by auto

text \<open>
  Claim C9. For every existing record and every successful status update: every field
  of the record other than \<^verbatim>\<open>status\<close>, \<^verbatim>\<open>updated_at\<close> and, when the new status is
  \<^verbatim>\<open>Rejected\<close>, \<^verbatim>\<open>rejection_reason\<close>, is as it was before; so is every other record of
  the store.
\<close>

theorem C9_update_frame:
  assumes "meth req \<noteq> ''OPTIONS''" and "json_body req = JObj kvs"
    and "map_of st gid = Some d"
    and "map_of kvs ''status'' = Some (JStr ''Approved'') \<or>
         map_of kvs ''status'' = Some (JStr ''Rejected'')"
  shows
    "\<exists>d'. code (fst (update_gate_pass e gid req st)) = 200 \<and>
       map_of (snd (update_gate_pass e gid req st)) gid = Some d' \<and>
       (\<forall>k. k \<noteq> ''status'' \<and> k \<noteq> ''updated_at'' \<and>
            \<not> (k = ''rejection_reason'' \<and> map_of kvs ''status'' = Some (JStr ''Rejected''))
            \<longrightarrow> map_of d' k = map_of d k) \<and>
       (\<forall>i. i \<noteq> gid \<longrightarrow> map_of (snd (update_gate_pass e gid req st)) i = map_of st i)"
proof -
  from assms(4) consider
      (app) "doc_get kvs ''status'' JNull = JStr ''Approved''"
        "map_of kvs ''status'' \<noteq> Some (JStr ''Rejected'')"
    | (rej) "doc_get kvs ''status'' JNull = JStr ''Rejected''"
        "map_of kvs ''status'' = Some (JStr ''Rejected'')"
    by (auto simp: doc_get_status)
  then show ?thesis
  proof cases
    case app
    then show ?thesis
      by (simp add: update_dict [OF assms(1,2)] assms(3) update_conv' written_approved)
  next
    case rej
    then show ?thesis
      by (simp add: update_dict [OF assms(1,2)] assms(3) update_conv' written_rejected)
  qed
qed

theorem C9_update_frame_witness:
  "\<exists>d'. code (fst (update_gate_pass \<lparr>uuid4 = ''u'', now0 = ''t0'', now1 = ''t1'', now2 = ''t2''\<rparr>
        ''g1'' \<lparr>meth = ''POST'', authorization = Some ''Bearer default_secret_token'',
                json_body = JObj [(''status'', JStr ''Rejected''), (''reason'', JStr ''late'')]\<rparr>
        [(''g1'', [(''name'', JStr ''A''), (''status'', JStr ''Pending'')]),
         (''g2'', [(''name'', JStr ''B'')])])) = 200 \<and>
      map_of (snd (update_gate_pass \<lparr>uuid4 = ''u'', now0 = ''t0'', now1 = ''t1'', now2 = ''t2''\<rparr>
        ''g1'' \<lparr>meth = ''POST'', authorization = Some ''Bearer default_secret_token'',
                json_body = JObj [(''status'', JStr ''Rejected''), (''reason'', JStr ''late'')]\<rparr>
        [(''g1'', [(''name'', JStr ''A''), (''status'', JStr ''Pending'')]),
         (''g2'', [(''name'', JStr ''B'')])])) ''g1'' = Some d' \<and>
      map_of d' ''name'' = Some (JStr ''A'') \<and>
      map_of (snd (update_gate_pass \<lparr>uuid4 = ''u'', now0 = ''t0'', now1 = ''t1'', now2 = ''t2''\<rparr>
        ''g1'' \<lparr>meth = ''POST'', authorization = Some ''Bearer default_secret_token'',
                json_body = JObj [(''status'', JStr ''Rejected''), (''reason'', JStr ''late'')]\<rparr>
        [(''g1'', [(''name'', JStr ''A''), (''status'', JStr ''Pending'')]),
         (''g2'', [(''name'', JStr ''B'')])])) ''g2'' = Some [(''name'', JStr ''B'')]"
proof -
  let ?e = "\<lparr>uuid4 = ''u'', now0 = ''t0'', now1 = ''t1'', now2 = ''t2''\<rparr>"
  let ?kvs = "[(''status'', JStr ''Rejected''), (''reason'', JStr ''late'')]"
  let ?req = "\<lparr>meth = ''POST'', authorization = Some ''Bearer default_secret_token'',
                json_body = JObj ?kvs\<rparr>"
  let ?d = "[(''name'', JStr ''A''), (''status'', JStr ''Pending'')]"
  let ?st = "[(''g1'', ?d), (''g2'', [(''name'', JStr ''B'')])]"
  have m: "meth ?req \<noteq> ''OPTIONS''" by simp
  have b: "json_body ?req = JObj ?kvs" by simp
  have l: "map_of ?st ''g1'' = Some ?d" by simp
  have v: "map_of ?kvs ''status'' = Some (JStr ''Approved'') \<or>
           map_of ?kvs ''status'' = Some (JStr ''Rejected'')" by simp
  from C9_update_frame [OF m b l v, of ?e] obtain d' where
    d: "code (fst (update_gate_pass ?e ''g1'' ?req ?st)) = 200"
       "map_of (snd (update_gate_pass ?e ''g1'' ?req ?st)) ''g1'' = Some d'"
       "\<forall>k. k \<noteq> ''status'' \<and> k \<noteq> ''updated_at'' \<and>
            \<not> (k = ''rejection_reason'' \<and> map_of ?kvs ''status'' = Some (JStr ''Rejected''))
            \<longrightarrow> map_of d' k = map_of ?d k"
       "\<forall>i. i \<noteq> ''g1'' \<longrightarrow> map_of (snd (update_gate_pass ?e ''g1'' ?req ?st)) i = map_of ?st i"
    by blast
  from d(3) have "map_of d' ''name'' = map_of ?d ''name''" by simp
  then have n: "map_of d' ''name'' = Some (JStr ''A'')" by simp
  from d(4) have "map_of (snd (update_gate_pass ?e ''g1'' ?req ?st)) ''g2'' = map_of ?st ''g2''"
    by simp
  then have o: "map_of (snd (update_gate_pass ?e ''g1'' ?req ?st)) ''g2'' = Some [(''name'', JStr ''B'')]"
    by simp
  from d(1,2) n o show ?thesis by blast
qed

section \<open>Properties of the statistics\<close>

lemma incr_apply:
  "incr b k s b' k' = (if b' = b \<and> k' = k then s b k + 1 else s b' k')"
  by (simp add: incr_def)

lemma consistent_stats0: "consistent stats0"
  by (simp add: consistent_def bucket_ok_def stats0_def)

lemma step_all:
  assumes "consistent s"
  shows "consistent (incr ''total'' ''all'' (incr ''local'' ''all'' s))"
    and "consistent (incr ''total'' ''all'' (incr ''leave'' ''all'' s))"
  using assms by (simp_all add: consistent_def bucket_ok_def incr_apply)

lemma step_local:
  assumes "consistent s"
  shows "consistent (incr ''total'' ''pending'' (incr ''local'' ''pending''
           (incr ''total'' ''all'' (incr ''local'' ''all'' s))))"
    and "consistent (incr ''total'' ''approved'' (incr ''local'' ''approved''
           (incr ''total'' ''all'' (incr ''local'' ''all'' s))))"
    and "consistent (incr ''total'' ''rejected'' (incr ''local'' ''rejected''
           (incr ''total'' ''all'' (incr ''local'' ''all'' s))))"
  using assms by (simp_all add: consistent_def bucket_ok_def incr_apply)

lemma step_leave:
  assumes "consistent s"
  shows "consistent (incr ''total'' ''pending'' (incr ''leave'' ''pending''
           (incr ''total'' ''all'' (incr ''leave'' ''all'' s))))"
    and "consistent (incr ''total'' ''approved'' (incr ''leave'' ''approved''
           (incr ''total'' ''all'' (incr ''leave'' ''all'' s))))"
    and "consistent (incr ''total'' ''rejected'' (incr ''leave'' ''rejected''
           (incr ''total'' ''all'' (incr ''leave'' ''all'' s))))"
  using assms by (simp_all add: consistent_def bucket_ok_def incr_apply)

text \<open>What one document adds, by the type and the lower-cased status it carries.\<close>

lemma count_doc_cases:
  assumes "count_doc d s = Inr s'"
  obtains (skip) "s' = s"
    | (counted) pt where "pt = ''local'' \<or> pt = ''leave''"
        "s' = incr ''total'' ''all'' (incr pt ''all'' s)"
    | (with_status) pt status where "pt = ''local'' \<or> pt = ''leave''"
        "status = ''pending'' \<or> status = ''approved'' \<or> status = ''rejected''"
        "s' = incr ''total'' status (incr pt status
                (incr ''total'' ''all'' (incr pt ''all'' s)))"
proof -
  from assms obtain status where
    st: "py_lower (doc_get d ''status'' (JStr ''unknown'')) = Inr status"
    unfolding count_doc_def Let_def by (auto split: sum.splits)
  show thesis
  proof (cases "doc_get d ''pass_type'' (JStr ''unknown'')")
    case (JStr pt)
    show thesis
    proof (cases "pt = ''local'' \<or> pt = ''leave''")
      case pt: True
      show thesis
      proof (cases "status = ''pending'' \<or> status = ''approved'' \<or> status = ''rejected''")
        case True
        from assms have "s' = incr ''total'' status (incr pt status
                (incr ''total'' ''all'' (incr pt ''all'' s)))"
          unfolding count_doc_def Let_def st JStr using pt True by simp
        with pt True show thesis by (rule with_status)
      next
        case False
        from assms have "s' = incr ''total'' ''all'' (incr pt ''all'' s)"
          unfolding count_doc_def Let_def st JStr using pt False by simp
        with pt show thesis by (rule counted)
      qed
    next
      case False
      from assms have "s' = s"
        unfolding count_doc_def Let_def st JStr using False by simp
      then show thesis by (rule skip)
    qed
  qed (use assms st in \<open>simp_all add: count_doc_def skip\<close>)
qed

lemma count_doc_consistent:
  assumes "count_doc d s = Inr s'" and "consistent s"
  shows "consistent s'"
  using assms(1)
proof (cases rule: count_doc_cases)
  case skip
  with assms(2) show ?thesis by simp
next
  case (counted pt)
  with step_all [OF assms(2)] show ?thesis by auto
next
  case (with_status pt status)
  with step_local [OF assms(2)] step_leave [OF assms(2)] show ?thesis by auto
qed

lemma tally_consistent:
  "tally ds s = Inr s' \<Longrightarrow> consistent s \<Longrightarrow> consistent s'"
proof (induction ds arbitrary: s)
  case Nil
  then show ?case by simp
next
  case (Cons d ds)
  then show ?case
    by (auto split: sum.splits dest: count_doc_consistent)
qed

lemma count_doc_total:
  "status_is_text d \<Longrightarrow> \<exists>s'. count_doc d s = Inr s'"
  by (auto simp: status_is_text_def count_doc_def doc_get_def Let_def
      split: option.splits json.splits)

lemma tally_total:
  "list_all status_is_text ds \<Longrightarrow> \<exists>s'. tally ds s = Inr s'"
proof (induction ds arbitrary: s)
  case Nil
  then show ?case by simp
next
  case (Cons d ds)
  from Cons.prems have "status_is_text d" "list_all status_is_text ds" by simp_all
  from count_doc_total [OF this(1)] obtain s1 where "count_doc d s = Inr s1" ..
  with Cons.IH [OF \<open>list_all status_is_text ds\<close>, of s1] show ?case by simp
qed

text \<open>
  Claim C6. For every list of stored records and every request to \<^verbatim>\<open>get_statistics\<close>
  past the guard, other than \<^verbatim>\<open>OPTIONS\<close>: whenever statistics are returned (code 200),
  \<open>total.all\<close> equals \<open>local.all\<close> plus \<open>leave.all\<close>, and in each of the buckets
  \<open>total\<close>, \<open>local\<close>, \<open>leave\<close> each of the counts \<open>pending\<close>, \<open>approved\<close>,
  \<open>rejected\<close> is at most that bucket's \<open>all\<close>. Statistics are returned whenever every
  stored \<^verbatim>\<open>status\<close> is a string, as every status written by the handlers is.
\<close>

theorem C6_statistics:
  assumes "meth req \<noteq> ''OPTIONS''"
  shows
    "(code (fst (get_statistics e req st)) = 200 \<longrightarrow>
        (\<exists>s. payload (fst (get_statistics e req st)) =
                JObj [(''stats'', stats_json s), (''last_updated'', JStr (now0 e))] \<and>
             s ''total'' ''all'' = s ''local'' ''all'' + s ''leave'' ''all'' \<and>
             s ''total'' ''pending'' \<le> s ''total'' ''all'' \<and>
             s ''total'' ''approved'' \<le> s ''total'' ''all'' \<and>
             s ''total'' ''rejected'' \<le> s ''total'' ''all'' \<and>
             s ''local'' ''pending'' \<le> s ''local'' ''all'' \<and>
             s ''local'' ''approved'' \<le> s ''local'' ''all'' \<and>
             s ''local'' ''rejected'' \<le> s ''local'' ''all'' \<and>
             s ''leave'' ''pending'' \<le> s ''leave'' ''all'' \<and>
             s ''leave'' ''approved'' \<le> s ''leave'' ''all'' \<and>
             s ''leave'' ''rejected'' \<le> s ''leave'' ''all'')) \<and>
     (list_all status_is_text (map snd st) \<longrightarrow> code (fst (get_statistics e req st)) = 200)"
proof (intro conjI impI)
  assume ok: "code (fst (get_statistics e req st)) = 200"
  with assms obtain s where s: "tally (map snd st) stats0 = Inr s"
    by (auto simp: get_statistics_def split: sum.splits)
  from tally_consistent [OF s consistent_stats0] have "consistent s" .
  moreover from s assms have "payload (fst (get_statistics e req st)) =
                JObj [(''stats'', stats_json s), (''last_updated'', JStr (now0 e))]"
    by (simp add: get_statistics_def)
  ultimately show "\<exists>s. payload (fst (get_statistics e req st)) =
                JObj [(''stats'', stats_json s), (''last_updated'', JStr (now0 e))] \<and>
             s ''total'' ''all'' = s ''local'' ''all'' + s ''leave'' ''all'' \<and>
             s ''total'' ''pending'' \<le> s ''total'' ''all'' \<and>
             s ''total'' ''approved'' \<le> s ''total'' ''all'' \<and>
             s ''total'' ''rejected'' \<le> s ''total'' ''all'' \<and>
             s ''local'' ''pending'' \<le> s ''local'' ''all'' \<and>
             s ''local'' ''approved'' \<le> s ''local'' ''all'' \<and>
             s ''local'' ''rejected'' \<le> s ''local'' ''all'' \<and>
             s ''leave'' ''pending'' \<le> s ''leave'' ''all'' \<and>
             s ''leave'' ''approved'' \<le> s ''leave'' ''all'' \<and>
             s ''leave'' ''rejected'' \<le> s ''leave'' ''all''"
    by (intro exI [of _ s]) (simp add: consistent_def bucket_ok_def)
next
  assume "list_all status_is_text (map snd st)"
  from tally_total [OF this, of stats0] obtain s where "tally (map snd st) stats0 = Inr s" ..
  with assms show "code (fst (get_statistics e req st)) = 200"
    by (simp add: get_statistics_def)
qed

theorem C6_statistics_witness:
  "code (fst (get_statistics \<lparr>uuid4 = ''u'', now0 = ''t0'', now1 = ''t1'', now2 = ''t2''\<rparr>
     \<lparr>meth = ''GET'', authorization = Some ''Bearer default_secret_token'', json_body = JNull\<rparr>
     [(''g1'', [(''pass_type'', JStr ''local''), (''status'', JStr ''Pending'')]),
      (''g2'', [(''pass_type'', JStr ''leave''), (''status'', JStr ''APPROVED'')]),
      (''g3'', [(''pass_type'', JStr ''weekend'')])])) = 200 \<and>
   (\<exists>s. payload (fst (get_statistics \<lparr>uuid4 = ''u'', now0 = ''t0'', now1 = ''t1'', now2 = ''t2''\<rparr>
     \<lparr>meth = ''GET'', authorization = Some ''Bearer default_secret_token'', json_body = JNull\<rparr>
     [(''g1'', [(''pass_type'', JStr ''local''), (''status'', JStr ''Pending'')]),
      (''g2'', [(''pass_type'', JStr ''leave''), (''status'', JStr ''APPROVED'')]),
      (''g3'', [(''pass_type'', JStr ''weekend'')])])) =
        JObj [(''stats'', stats_json s), (''last_updated'', JStr ''t0'')] \<and>
      s ''total'' ''all'' = s ''local'' ''all'' + s ''leave'' ''all'' \<and>
      s ''leave'' ''approved'' \<le> s ''leave'' ''all'')"
proof -
  let ?e = "\<lparr>uuid4 = ''u'', now0 = ''t0'', now1 = ''t1'', now2 = ''t2''\<rparr>"
  let ?req = "\<lparr>meth = ''GET'', authorization = Some ''Bearer default_secret_token'',
               json_body = JNull\<rparr>"
  let ?st = "[(''g1'', [(''pass_type'', JStr ''local''), (''status'', JStr ''Pending'')]),
      (''g2'', [(''pass_type'', JStr ''leave''), (''status'', JStr ''APPROVED'')]),
      (''g3'', [(''pass_type'', JStr ''weekend'')])]"
  have m: "meth ?req \<noteq> ''OPTIONS''" by simp
  have t: "list_all status_is_text (map snd ?st)" by (simp add: status_is_text_def)
  note c = C6_statistics [OF m, of ?e ?st]
  from c t have ok: "code (fst (get_statistics ?e ?req ?st)) = 200" by blast
  with c obtain s where
    "payload (fst (get_statistics ?e ?req ?st)) =
        JObj [(''stats'', stats_json s), (''last_updated'', JStr (now0 ?e))]"
    "s ''total'' ''all'' = s ''local'' ''all'' + s ''leave'' ''all''"
    "s ''leave'' ''approved'' \<le> s ''leave'' ''all''"
    by blast
  then have "\<exists>s. payload (fst (get_statistics ?e ?req ?st)) =
        JObj [(''stats'', stats_json s), (''last_updated'', JStr ''t0'')] \<and>
      s ''total'' ''all'' = s ''local'' ''all'' + s ''leave'' ''all'' \<and>
      s ''leave'' ''approved'' \<le> s ''leave'' ''all''"
    by (intro exI [of _ s]) simp
  with ok show ?thesis by blast
qed

section \<open>Properties of the lookup by PRN\<close>

lemma strip_empty_iff: "strip s = [] \<longleftrightarrow> (\<forall>c \<in> set s. py_isspace c)"
proof
  assume "strip s = []"
  then have "dropWhile py_isspace (rev (dropWhile py_isspace s)) = []"
    by (simp add: strip_def)
  then have all: "\<forall>c \<in> set (dropWhile py_isspace s). py_isspace c"
    by (simp add: dropWhile_eq_Nil_conv)
  have "dropWhile py_isspace s = []"
  proof (rule ccontr)
    assume ne: "dropWhile py_isspace s \<noteq> []"
    then have "\<not> py_isspace (hd (dropWhile py_isspace s))" by (rule hd_dropWhile)
    moreover from ne have "hd (dropWhile py_isspace s) \<in> set (dropWhile py_isspace s)"
      by simp
    ultimately show False using all by blast
  qed
  then show "\<forall>c \<in> set s. py_isspace c" by (simp add: dropWhile_eq_Nil_conv)
next
  assume "\<forall>c \<in> set s. py_isspace c"
  then show "strip s = []" by (auto simp: strip_def dest: set_dropWhileD)
qed

lemma matching_none:
  "\<forall>p \<in> set st. map_of (snd p) ''prn_number'' \<noteq> Some (JStr prn) \<Longrightarrow> matching prn st = []"
  by (simp add: matching_def filter_empty_conv)

text \<open>
  Claim C7. For every request to \<^verbatim>\<open>get_gate_pass_status\<close> other than \<^verbatim>\<open>OPTIONS\<close>, every
  order of the store's values and every PRN that is not empty and not all white space:
  when no stored record has that PRN as its \<^verbatim>\<open>prn_number\<close>, the answer is 200 with the
  empty array, and the store is as it was.
\<close>

theorem C7_no_match_empty_list:
  assumes "meth req \<noteq> ''OPTIONS''"
    and "prn \<noteq> []" and "\<exists>c \<in> set prn. \<not> py_isspace c"
    and "\<forall>p \<in> set st. map_of (snd p) ''prn_number'' \<noteq> Some (JStr prn)"
  shows "get_gate_pass_status le prn req st = (\<lparr>code = 200, payload = JArr []\<rparr>, st)"
proof -
  from assms(3) have "strip prn \<noteq> []" by (simp add: strip_empty_iff)
  with assms(1,2) matching_none [OF assms(4)] show ?thesis
    by (simp add: get_gate_pass_status_def order_by_desc_def)
qed

theorem C7_no_match_empty_list_witness:
  "get_gate_pass_status (=) ''123''
     \<lparr>meth = ''GET'', authorization = None, json_body = JNull\<rparr>
     [(''g1'', [(''prn_number'', JStr ''456''), (''timestamp'', JStr ''t'')])] =
   (\<lparr>code = 200, payload = JArr []\<rparr>,
    [(''g1'', [(''prn_number'', JStr ''456''), (''timestamp'', JStr ''t'')])])"
  using C7_no_match_empty_list [of "\<lparr>meth = ''GET'', authorization = None, json_body = JNull\<rparr>"
     "''123''" "[(''g1'', [(''prn_number'', JStr ''456''), (''timestamp'', JStr ''t'')])]"
     "(=)"]
  by (simp add: py_isspace_def)

section \<open>Properties of sequences of operations\<close>

lemma guard_store:
  "snd (check_authentication f req st) = st \<or>
   check_authentication f req st = f req st"
  using guard_options [of req f st] guard_pass [of req f st] guard_reject [of req f st]
  by (cases "meth req = ''OPTIONS''") auto

lemma submit_store:
  "snd (submit_gate_pass e req st) = st \<or>
   (\<exists>kvs. json_body req = JObj kvs \<and>
      snd (submit_gate_pass e req st) =
        AList.update (uuid4 e) (dict_update kvs (server_fields e)) st)"
proof (cases "meth req = ''OPTIONS''")
  case True
  then show ?thesis by (simp add: submit_gate_pass_def)
next
  case False
  show ?thesis
  proof (cases "valid_body (json_body req)")
    case True
    then obtain kvs where kvs: "json_body req = JObj kvs"
      by (cases "json_body req") (auto simp: valid_body_def)
    with True have "valid_body (JObj kvs)" by simp
    from submit_valid [OF False kvs this, of e st] kvs show ?thesis by simp
  next
    case nv: False
    show ?thesis
    proof (cases "is_dict (json_body req)")
      case True
      then obtain kvs where kvs: "json_body req = JObj kvs"
        by (cases "json_body req") (auto simp: is_dict_def)
      with nv have "\<not> valid_body (JObj kvs)" by simp
      from submit_invalid_dict [OF False kvs this, of e st] show ?thesis by simp
    next
      case nd: False
      from submit_non_dict [OF False nd, of e st] show ?thesis by simp
    qed
  qed
qed

lemma update_store:
  "snd (update_gate_pass e gid req st) = st \<or>
   (\<exists>d status reason.
      (status = JStr ''Approved'' \<or> status = JStr ''Rejected'') \<and>
      snd (update_gate_pass e gid req st) =
        AList.update gid (dict_update d (update_data status reason (now0 e))) st)"
proof (cases "meth req = ''OPTIONS''")
  case True
  then show ?thesis by (simp add: update_gate_pass_def)
next
  case False
  show ?thesis
  proof (cases "is_dict (json_body req)")
    case True
    then obtain kvs where kvs: "json_body req = JObj kvs"
      by (cases "json_body req") (auto simp: is_dict_def)
    show ?thesis
      unfolding update_dict [OF False kvs]
      by (auto split: option.splits)
  next
    case nd: False
    from update_non_dict [OF False nd, of e gid st] show ?thesis by simp
  qed
qed

lemma settled_submitted:
  "map_of kvs ''rejection_reason'' = None \<Longrightarrow> settled (dict_update kvs (server_fields e))"
  by (simp add: settled_def stored_fields)

lemma settled_updated:
  "status = JStr ''Approved'' \<or> status = JStr ''Rejected'' \<Longrightarrow>
   settled (dict_update d (update_data status reason now))"
  by (auto simp: settled_def written_approved written_rejected)

lemma step_settled:
  assumes "\<forall>i d. map_of st i = Some d \<longrightarrow> settled d" and "clean_call c"
  shows "\<forall>i d. map_of (step st c) i = Some d \<longrightarrow> settled d"
proof (cases c)
  case (Submit e req)
  from submit_store [of e req st] show ?thesis
  proof
    assume "snd (submit_gate_pass e req st) = st"
    with assms(1) Submit show ?thesis by simp
  next
    assume "\<exists>kvs. json_body req = JObj kvs \<and>
      snd (submit_gate_pass e req st) =
        AList.update (uuid4 e) (dict_update kvs (server_fields e)) st"
    then obtain kvs where kvs: "json_body req = JObj kvs"
      and s: "snd (submit_gate_pass e req st) =
        AList.update (uuid4 e) (dict_update kvs (server_fields e)) st" by blast
    from assms(2) Submit kvs have "map_of kvs ''rejection_reason'' = None" by simp
    then have "settled (dict_update kvs (server_fields e))" by (rule settled_submitted)
    with assms(1) Submit s show ?thesis by (simp add: update_conv')
  qed
next
  case (Update e gid req)
  from guard_store [of "update_gate_pass e gid" req st]
  have "snd (update_gate_pass_route e gid req st) = st \<or>
        snd (update_gate_pass_route e gid req st) = snd (update_gate_pass e gid req st)"
    by (auto simp: update_gate_pass_route_def)
  then show ?thesis
  proof
    assume "snd (update_gate_pass_route e gid req st) = st"
    with assms(1) Update show ?thesis by simp
  next
    assume r: "snd (update_gate_pass_route e gid req st) = snd (update_gate_pass e gid req st)"
    from update_store [of e gid req st] show ?thesis
    proof
      assume "snd (update_gate_pass e gid req st) = st"
      with r assms(1) Update show ?thesis by simp
    next
      assume "\<exists>d status reason.
        (status = JStr ''Approved'' \<or> status = JStr ''Rejected'') \<and>
        snd (update_gate_pass e gid req st) =
          AList.update gid (dict_update d (update_data status reason (now0 e))) st"
      then obtain d status reason where
        v: "status = JStr ''Approved'' \<or> status = JStr ''Rejected''"
        and s: "snd (update_gate_pass e gid req st) =
          AList.update gid (dict_update d (update_data status reason (now0 e))) st" by blast
      from v have "settled (dict_update d (update_data status reason (now0 e)))"
        by (rule settled_updated)
      with assms(1) Update r s show ?thesis by (simp add: update_conv')
    qed
  qed
qed

lemma foldl_settled:
  "\<forall>i d. map_of st i = Some d \<longrightarrow> settled d \<Longrightarrow> \<forall>c \<in> set calls. clean_call c \<Longrightarrow>
   \<forall>i d. map_of (foldl step st calls) i = Some d \<longrightarrow> settled d"
proof (induction calls arbitrary: st)
  case Nil
  then show ?case by simp
next
  case (Cons c calls)
  from Cons.prems have "\<forall>i d. map_of (step st c) i = Some d \<longrightarrow> settled d"
    by (intro step_settled) simp_all
  with Cons.IH [of "step st c"] Cons.prems(2) show ?case by simp
qed

lemma example_run:
  "run
    [Submit \<lparr>uuid4 = ''u1'', now0 = ''t0'', now1 = ''t1'', now2 = ''t2''\<rparr>
       \<lparr>meth = ''POST'', authorization = None,
        json_body = JObj [(''pass_type'', JStr ''local''), (''prn_number'', JStr ''123''),
          (''department'', JStr ''CS''), (''name'', JStr ''A''), (''wing'', JStr ''W1''),
          (''room_number'', JStr ''101''), (''reason'', JStr ''home''), (''phone_no'', JStr ''999''),
          (''proposed_visit'', JStr ''2024-01-01''), (''outing_dates'', JStr ''2024-01-01'')]\<rparr>,
     Update \<lparr>uuid4 = ''u2'', now0 = ''t3'', now1 = ''t4'', now2 = ''t5''\<rparr> ''u1''
       \<lparr>meth = ''POST'', authorization = Some ''Bearer default_secret_token'',
        json_body = JObj [(''status'', JStr ''Rejected''), (''reason'', JStr ''late'')]\<rparr>,
     Update \<lparr>uuid4 = ''u3'', now0 = ''t6'', now1 = ''t7'', now2 = ''t8''\<rparr> ''u1''
       \<lparr>meth = ''POST'', authorization = Some ''Bearer default_secret_token'',
        json_body = JObj [(''status'', JStr ''Approved'')]\<rparr>] =
   [(''u1'',
     [(''pass_type'', JStr ''local''), (''prn_number'', JStr ''123''),
      (''department'', JStr ''CS''), (''name'', JStr ''A''), (''wing'', JStr ''W1''),
      (''room_number'', JStr ''101''), (''reason'', JStr ''home''), (''phone_no'', JStr ''999''),
      (''proposed_visit'', JStr ''2024-01-01''), (''outing_dates'', JStr ''2024-01-01''),
      (''timestamp'', JStr ''t0''), (''status'', JStr ''Approved''),
      (''created_at'', JStr ''t1''), (''updated_at'', JStr ''t6''),
      (''rejection_reason'', JStr ''late'')])]"
  by (simp add: run_def submit_gate_pass_def required_fields_def server_fields_def
      update_gate_pass_route_def check_authentication_def SECRET_TOKEN_def
      update_gate_pass_def update_data_def Let_def)

text \<open>
  Claim C4, as the code has it. Over every sequence of requests to \<^verbatim>\<open>submit_gate_pass\<close>
  and to \<^verbatim>\<open>update_gate_pass\<close>, starting from the empty store, in which no submission body
  itself carries a \<^verbatim>\<open>rejection_reason\<close>: a record whose status is \<^verbatim>\<open>Pending\<close> has no
  \<^verbatim>\<open>rejection_reason\<close>, and a record that has one has status \<^verbatim>\<open>Rejected\<close> or
  \<^verbatim>\<open>Approved\<close>; an approval after a rejection keeps the earlier reason.
\<close>

theorem C4_reason_needs_rejection:
  assumes "\<forall>c \<in> set calls. clean_call c"
    and "map_of (run calls) i = Some d"
  shows "(map_of d ''status'' = Some (JStr ''Pending'') \<longrightarrow>
            map_of d ''rejection_reason'' = None) \<and>
         (map_of d ''rejection_reason'' \<noteq> None \<longrightarrow>
            map_of d ''status'' = Some (JStr ''Rejected'') \<or>
            map_of d ''status'' = Some (JStr ''Approved''))"
proof -
  have "\<forall>i d. map_of (foldl step [] calls) i = Some d \<longrightarrow> settled d"
    by (rule foldl_settled) (use assms(1) in simp_all)
  with assms(2) have "settled d" by (simp add: run_def)
  then show ?thesis by (auto simp: settled_def)
qed

theorem C4_reason_needs_rejection_witness:
  "map_of
     [(''pass_type'', JStr ''local''), (''prn_number'', JStr ''123''),
      (''department'', JStr ''CS''), (''name'', JStr ''A''), (''wing'', JStr ''W1''),
      (''room_number'', JStr ''101''), (''reason'', JStr ''home''), (''phone_no'', JStr ''999''),
      (''proposed_visit'', JStr ''2024-01-01''), (''outing_dates'', JStr ''2024-01-01''),
      (''timestamp'', JStr ''t0''), (''status'', JStr ''Approved''),
      (''created_at'', JStr ''t1''), (''updated_at'', JStr ''t6''),
      (''rejection_reason'', JStr ''late'')] ''status'' = Some (JStr ''Rejected'') \<or>
   map_of
     [(''pass_type'', JStr ''local''), (''prn_number'', JStr ''123''),
      (''department'', JStr ''CS''), (''name'', JStr ''A''), (''wing'', JStr ''W1''),
      (''room_number'', JStr ''101''), (''reason'', JStr ''home''), (''phone_no'', JStr ''999''),
      (''proposed_visit'', JStr ''2024-01-01''), (''outing_dates'', JStr ''2024-01-01''),
      (''timestamp'', JStr ''t0''), (''status'', JStr ''Approved''),
      (''created_at'', JStr ''t1''), (''updated_at'', JStr ''t6''),
      (''rejection_reason'', JStr ''late'')] ''status'' = Some (JStr ''Approved'')"
proof -
  let ?calls = "[Submit \<lparr>uuid4 = ''u1'', now0 = ''t0'', now1 = ''t1'', now2 = ''t2''\<rparr>
       \<lparr>meth = ''POST'', authorization = None,
        json_body = JObj [(''pass_type'', JStr ''local''), (''prn_number'', JStr ''123''),
          (''department'', JStr ''CS''), (''name'', JStr ''A''), (''wing'', JStr ''W1''),
          (''room_number'', JStr ''101''), (''reason'', JStr ''home''), (''phone_no'', JStr ''999''),
          (''proposed_visit'', JStr ''2024-01-01''), (''outing_dates'', JStr ''2024-01-01'')]\<rparr>,
     Update \<lparr>uuid4 = ''u2'', now0 = ''t3'', now1 = ''t4'', now2 = ''t5''\<rparr> ''u1''
       \<lparr>meth = ''POST'', authorization = Some ''Bearer default_secret_token'',
        json_body = JObj [(''status'', JStr ''Rejected''), (''reason'', JStr ''late'')]\<rparr>,
     Update \<lparr>uuid4 = ''u3'', now0 = ''t6'', now1 = ''t7'', now2 = ''t8''\<rparr> ''u1''
       \<lparr>meth = ''POST'', authorization = Some ''Bearer default_secret_token'',
        json_body = JObj [(''status'', JStr ''Approved'')]\<rparr>]"
  let ?d = "[(''pass_type'', JStr ''local''), (''prn_number'', JStr ''123''),
      (''department'', JStr ''CS''), (''name'', JStr ''A''), (''wing'', JStr ''W1''),
      (''room_number'', JStr ''101''), (''reason'', JStr ''home''), (''phone_no'', JStr ''999''),
      (''proposed_visit'', JStr ''2024-01-01''), (''outing_dates'', JStr ''2024-01-01''),
      (''timestamp'', JStr ''t0''), (''status'', JStr ''Approved''),
      (''created_at'', JStr ''t1''), (''updated_at'', JStr ''t6''),
      (''rejection_reason'', JStr ''late'')]"
  have c: "\<forall>c \<in> set ?calls. clean_call c" by simp
  have r: "map_of (run ?calls) ''u1'' = Some ?d" by (simp add: example_run)
  have n: "map_of ?d ''rejection_reason'' \<noteq> None" by simp
  from C4_reason_needs_rejection [OF c r] n show ?thesis by blast
qed

text \<open>
  Claim C4 as it is stated fails: after a submission, a rejection with a reason and an
  approval, the record has status \<^verbatim>\<open>Approved\<close> and still carries the
  \<^verbatim>\<open>rejection_reason\<close>.
\<close>

theorem C4_counterexample:
  "map_of (run
    [Submit \<lparr>uuid4 = ''u1'', now0 = ''t0'', now1 = ''t1'', now2 = ''t2''\<rparr>
       \<lparr>meth = ''POST'', authorization = None,
        json_body = JObj [(''pass_type'', JStr ''local''), (''prn_number'', JStr ''123''),
          (''department'', JStr ''CS''), (''name'', JStr ''A''), (''wing'', JStr ''W1''),
          (''room_number'', JStr ''101''), (''reason'', JStr ''home''), (''phone_no'', JStr ''999''),
          (''proposed_visit'', JStr ''2024-01-01''), (''outing_dates'', JStr ''2024-01-01'')]\<rparr>,
     Update \<lparr>uuid4 = ''u2'', now0 = ''t3'', now1 = ''t4'', now2 = ''t5''\<rparr> ''u1''
       \<lparr>meth = ''POST'', authorization = Some ''Bearer default_secret_token'',
        json_body = JObj [(''status'', JStr ''Rejected''), (''reason'', JStr ''late'')]\<rparr>,
     Update \<lparr>uuid4 = ''u3'', now0 = ''t6'', now1 = ''t7'', now2 = ''t8''\<rparr> ''u1''
       \<lparr>meth = ''POST'', authorization = Some ''Bearer default_secret_token'',
        json_body = JObj [(''status'', JStr ''Approved'')]\<rparr>]) ''u1'' =
   Some
     [(''pass_type'', JStr ''local''), (''prn_number'', JStr ''123''),
      (''department'', JStr ''CS''), (''name'', JStr ''A''), (''wing'', JStr ''W1''),
      (''room_number'', JStr ''101''), (''reason'', JStr ''home''), (''phone_no'', JStr ''999''),
      (''proposed_visit'', JStr ''2024-01-01''), (''outing_dates'', JStr ''2024-01-01''),
      (''timestamp'', JStr ''t0''), (''status'', JStr ''Approved''),
      (''created_at'', JStr ''t1''), (''updated_at'', JStr ''t6''),
      (''rejection_reason'', JStr ''late'')] \<and>
   map_of
     [(''pass_type'', JStr ''local''), (''prn_number'', JStr ''123''),
      (''department'', JStr ''CS''), (''name'', JStr ''A''), (''wing'', JStr ''W1''),
      (''room_number'', JStr ''101''), (''reason'', JStr ''home''), (''phone_no'', JStr ''999''),
      (''proposed_visit'', JStr ''2024-01-01''), (''outing_dates'', JStr ''2024-01-01''),
      (''timestamp'', JStr ''t0''), (''status'', JStr ''Approved''),
      (''created_at'', JStr ''t1''), (''updated_at'', JStr ''t6''),
      (''rejection_reason'', JStr ''late'')] ''rejection_reason'' = Some (JStr ''late'') \<and>
   map_of
     [(''pass_type'', JStr ''local''), (''prn_number'', JStr ''123''),
      (''department'', JStr ''CS''), (''name'', JStr ''A''), (''wing'', JStr ''W1''),
      (''room_number'', JStr ''101''), (''reason'', JStr ''home''), (''phone_no'', JStr ''999''),
      (''proposed_visit'', JStr ''2024-01-01''), (''outing_dates'', JStr ''2024-01-01''),
      (''timestamp'', JStr ''t0''), (''status'', JStr ''Approved''),
      (''created_at'', JStr ''t1''), (''updated_at'', JStr ''t6''),
      (''rejection_reason'', JStr ''late'')] ''status'' \<noteq> Some (JStr ''Rejected'')"
  by (simp add: example_run)

end
